theory Spec2Isabelle
  imports Complex_Main "HOL-Library.Multiset" "HOL-Library.Monad_Syntax"
begin

section \<open>JavaScript numbers\<close>

text \<open>
  Every number of the program is a JavaScript number. The model keeps the finite values
  as exact reals (rounding to binary64, and to binary32 when a value is stored in a
  \<^verbatim>\<open>Float32Array\<close>, is not modelled) and keeps the three special values, so that a
  division by zero or a read past the end of an array is what it is in JavaScript and
  not HOL's \<open>x / 0 = 0\<close>. The sign of zero is not modelled: a zero divisor counts as
  \<open>+0\<close>, which is the only zero divisor the program can produce
  (\<^verbatim>\<open>triangles.length - 1\<close>).
\<close>

datatype jsnum = Fin real | PInf | NInf | NaN

definition js_inf :: "bool \<Rightarrow> jsnum" where
  "js_inf positive = (if positive then PInf else NInf)"

fun js_neg :: "jsnum \<Rightarrow> jsnum" where
  "js_neg (Fin a) = Fin (- a)"
| "js_neg PInf = NInf"
| "js_neg NInf = PInf"
| "js_neg NaN = NaN"

fun js_add :: "jsnum \<Rightarrow> jsnum \<Rightarrow> jsnum" where
  "js_add (Fin a) (Fin b) = Fin (a + b)"
| "js_add (Fin a) PInf = PInf"
| "js_add (Fin a) NInf = NInf"
| "js_add PInf (Fin b) = PInf"
| "js_add NInf (Fin b) = NInf"
| "js_add PInf PInf = PInf"
| "js_add NInf NInf = NInf"
| "js_add PInf NInf = NaN"
| "js_add NInf PInf = NaN"
| "js_add NaN b = NaN"
| "js_add a NaN = NaN"

definition js_sub :: "jsnum \<Rightarrow> jsnum \<Rightarrow> jsnum" where
  "js_sub a b = js_add a (js_neg b)"

fun js_mul :: "jsnum \<Rightarrow> jsnum \<Rightarrow> jsnum" where
  "js_mul (Fin a) (Fin b) = Fin (a * b)"
| "js_mul (Fin a) PInf = (if a = 0 then NaN else js_inf (0 < a))"
| "js_mul (Fin a) NInf = (if a = 0 then NaN else js_inf (a < 0))"
| "js_mul PInf (Fin b) = (if b = 0 then NaN else js_inf (0 < b))"
| "js_mul NInf (Fin b) = (if b = 0 then NaN else js_inf (b < 0))"
| "js_mul PInf PInf = PInf"
| "js_mul NInf NInf = PInf"
| "js_mul PInf NInf = NInf"
| "js_mul NInf PInf = NInf"
| "js_mul NaN b = NaN"
| "js_mul a NaN = NaN"

fun js_div :: "jsnum \<Rightarrow> jsnum \<Rightarrow> jsnum" where
  "js_div (Fin a) (Fin b) =
     (if b \<noteq> 0 then Fin (a / b) else if a = 0 then NaN else js_inf (0 < a))"
| "js_div (Fin a) PInf = Fin 0"
| "js_div (Fin a) NInf = Fin 0"
| "js_div PInf (Fin b) = js_inf (0 \<le> b)"
| "js_div NInf (Fin b) = js_inf (b < 0)"
| "js_div PInf PInf = NaN"
| "js_div NInf NInf = NaN"
| "js_div PInf NInf = NaN"
| "js_div NInf PInf = NaN"
| "js_div NaN b = NaN"
| "js_div a NaN = NaN"

text \<open>\<^verbatim>\<open>x > 0\<close>, false for NaN.\<close>

fun js_positive :: "jsnum \<Rightarrow> bool" where
  "js_positive (Fin a) = (0 < a)"
| "js_positive PInf = True"
| "js_positive NInf = False"
| "js_positive NaN = False"

text \<open>
  \<^verbatim>\<open>arr[i]\<close> with a loop counter: past the end the read gives \<^verbatim>\<open>undefined\<close>, which every
  use in the program turns into NaN at once (a multiplication, or a store into a
  \<^verbatim>\<open>Float32Array\<close>).
\<close>

definition js_nth :: "jsnum list \<Rightarrow> nat \<Rightarrow> jsnum" where
  "js_nth arr i = (if i < length arr then arr ! i else NaN)"

text \<open>\<^verbatim>\<open>arr[x]\<close> with a computed number: only a non-negative integer below the length is an
  index of the array.\<close>

definition js_index :: "jsnum list \<Rightarrow> jsnum \<Rightarrow> jsnum" where
  "js_index arr x =
     (case x of
        Fin r \<Rightarrow> (if 0 \<le> r \<and> r = of_int \<lfloor>r\<rfloor> then js_nth arr (nat \<lfloor>r\<rfloor>) else NaN)
      | _ \<Rightarrow> NaN)"

section \<open>The sphere generator (Module8/webgl-HSRP.js, Module6/webgl-shading.js)\<close>

type_synonym vec3 = "jsnum \<times> jsnum \<times> jsnum"

text \<open>The spread \<^verbatim>\<open>...v\<close> of a three-component vector.\<close>

fun spread :: "vec3 \<Rightarrow> jsnum list" where
  "spread (x, y, z) = [x, y, z]"

text \<open>
  \<^verbatim>\<open>refineSphere(v1, v2, v3, depth, vertices, indices)\<close>, the same text in both modules.
  The two arrays it pushes to are passed in and returned. \<^verbatim>\<open>vec3.add\<close> and
  \<^verbatim>\<open>vec3.normalize\<close> belong to the gl-matrix library, which is not part of the
  repository: they are the parameters \<open>vec3_add\<close> and \<open>vec3_normalize\<close>, and what is proved
  holds whatever they compute. \<open>depth\<close> is an integer (the slider value after
  \<^verbatim>\<open>parseInt\<close>, or the default); below zero the test \<^verbatim>\<open>depth === 0\<close> never succeeds and
  the recursion does not return, which is the value \<open>None\<close>.
\<close>

partial_function (option) refineSphere ::
  "(vec3 \<Rightarrow> vec3 \<Rightarrow> vec3) \<Rightarrow> (vec3 \<Rightarrow> vec3) \<Rightarrow> vec3 \<Rightarrow> vec3 \<Rightarrow> vec3 \<Rightarrow> int \<Rightarrow>
   jsnum list \<times> jsnum list \<Rightarrow> (jsnum list \<times> jsnum list) option"
where
  "refineSphere vec3_add vec3_normalize v1 v2 v3 depth arrays =
     (if depth = 0 then
        (let vertices = fst arrays; indices = snd arrays;
             indexOffset = js_div (Fin (real (length vertices))) (Fin 3)
         in Some (vertices @ spread v1 @ spread v2 @ spread v3,
                  indices @ [indexOffset, js_add indexOffset (Fin 1), js_add indexOffset (Fin 2)]))
      else
        (let mid12 = vec3_normalize (vec3_add v1 v2);
             mid23 = vec3_normalize (vec3_add v2 v3);
             mid31 = vec3_normalize (vec3_add v3 v1)
         in do {
              arrays1 \<leftarrow> refineSphere vec3_add vec3_normalize v1 mid12 mid31 (depth - 1) arrays;
              arrays2 \<leftarrow> refineSphere vec3_add vec3_normalize v2 mid23 mid12 (depth - 1) arrays1;
              arrays3 \<leftarrow> refineSphere vec3_add vec3_normalize v3 mid31 mid23 (depth - 1) arrays2;
              refineSphere vec3_add vec3_normalize mid12 mid23 mid31 (depth - 1) arrays3
            }))"

declare refineSphere.simps [code]

text \<open>
  What \<^verbatim>\<open>createSphereBuffers\<close> returns in Module 8, without the two GPU buffer handles
  (Module 6 builds the same arrays and returns the handles and \<^verbatim>\<open>indexCount\<close> only).
\<close>

record sphereData =
  indexCount :: nat
  vertices :: "jsnum list"
  indices :: "jsnum list"

definition initialA :: vec3 where "initialA = (Fin 0, Fin 0, Fin (- 1))"
definition initialB :: vec3 where "initialB = (Fin 0, Fin (942809 / 1000000), Fin (333333 / 1000000))"
definition initialC :: vec3 where
  "initialC = (Fin (- (816497 / 1000000)), Fin (- (471405 / 1000000)), Fin (333333 / 1000000))"
definition initialD :: vec3 where
  "initialD = (Fin (816497 / 1000000), Fin (- (471405 / 1000000)), Fin (333333 / 1000000))"

text \<open>
  \<^verbatim>\<open>createSphereBuffers(glContext, recursionLevel = 3)\<close>: \<open>None\<close> as the argument is the
  call without a level. The uploads to the GPU do not change the two arrays.
\<close>

definition createSphereBuffers ::
  "(vec3 \<Rightarrow> vec3 \<Rightarrow> vec3) \<Rightarrow> (vec3 \<Rightarrow> vec3) \<Rightarrow> int option \<Rightarrow> sphereData option"
where
  "createSphereBuffers vec3_add vec3_normalize level =
     (let recursionLevel = (case level of None \<Rightarrow> 3 | Some l \<Rightarrow> l) in
      do {
        arrays1 \<leftarrow> refineSphere vec3_add vec3_normalize initialA initialB initialC recursionLevel ([], []);
        arrays2 \<leftarrow> refineSphere vec3_add vec3_normalize initialD initialC initialB recursionLevel arrays1;
        arrays3 \<leftarrow> refineSphere vec3_add vec3_normalize initialA initialD initialB recursionLevel arrays2;
        arrays4 \<leftarrow> refineSphere vec3_add vec3_normalize initialA initialC initialD recursionLevel arrays3;
        Some \<lparr> indexCount = length (snd arrays4), vertices = fst arrays4, indices = snd arrays4 \<rparr>
      })"


section \<open>The painter's renderer (Module8/webgl-HSRP.js)\<close>

type_synonym vec4 = "jsnum \<times> jsnum \<times> jsnum \<times> jsnum"

text \<open>
  \<^verbatim>\<open>transformVertex(matrix, vertex)\<close>. \<^verbatim>\<open>vec4.transformMat4\<close> is gl-matrix's: the parameter
  \<open>transformMat4\<close>, over any type \<open>'m\<close> of matrices. It writes into the fresh \<^verbatim>\<open>v\<close>, never
  into \<^verbatim>\<open>vertex\<close>.
\<close>

definition transformVertex :: "('m \<Rightarrow> vec4 \<Rightarrow> vec4) \<Rightarrow> 'm \<Rightarrow> vec3 \<Rightarrow> vec3" where
  "transformVertex transformMat4 matrix vertex =
     (case vertex of (x, y, z) \<Rightarrow>
        (case transformMat4 matrix (x, y, z, Fin 1) of (a, b, c, d) \<Rightarrow> (a, b, c)))"

text \<open>An element of \<^verbatim>\<open>triangles\<close>: \<^verbatim>\<open>{ vertices: [...], avgDepth: ... }\<close>.\<close>

record triangle =
  tri_vertices :: "jsnum list"
  avgDepth :: jsnum

text \<open>\<^verbatim>\<open>vec3.fromValues(vertices[idx], vertices[idx + 1], vertices[idx + 2])\<close>.\<close>

definition fetchVertex :: "jsnum list \<Rightarrow> jsnum \<Rightarrow> vec3" where
  "fetchVertex vertexArray idx =
     (js_index vertexArray idx, js_index vertexArray (js_add idx (Fin 1)),
      js_index vertexArray (js_add idx (Fin 2)))"

text \<open>The body of the loop over \<^verbatim>\<open>indices\<close>, at counter \<open>i\<close>: the object it pushes.\<close>

definition triangleAt ::
  "('m \<Rightarrow> vec4 \<Rightarrow> vec4) \<Rightarrow> 'm \<Rightarrow> jsnum list \<Rightarrow> jsnum list \<Rightarrow> nat \<Rightarrow> triangle"
where
  "triangleAt transformMat4 modelViewMatrix vertexArray indexArray i =
     (let idx0 = js_mul (js_nth indexArray i) (Fin 3);
          idx1 = js_mul (js_nth indexArray (i + 1)) (Fin 3);
          idx2 = js_mul (js_nth indexArray (i + 2)) (Fin 3);
          v0 = fetchVertex vertexArray idx0;
          v1 = fetchVertex vertexArray idx1;
          v2 = fetchVertex vertexArray idx2;
          v0_view = transformVertex transformMat4 modelViewMatrix v0;
          v1_view = transformVertex transformMat4 modelViewMatrix v1;
          v2_view = transformVertex transformMat4 modelViewMatrix v2;
          depth = js_div (js_add (js_add (snd (snd v0_view)) (snd (snd v1_view)))
                                 (snd (snd v2_view))) (Fin 3)
      in \<lparr> tri_vertices = spread v0 @ spread v1 @ spread v2, avgDepth = depth \<rparr>)"

text \<open>\<^verbatim>\<open>for (let i = 0; i < indices.length; i += 3) { ... triangles.push(...) }\<close>.\<close>

function buildTriangles ::
  "('m \<Rightarrow> vec4 \<Rightarrow> vec4) \<Rightarrow> 'm \<Rightarrow> jsnum list \<Rightarrow> jsnum list \<Rightarrow> nat \<Rightarrow> triangle list \<Rightarrow>
   triangle list"
where
  "buildTriangles transformMat4 modelViewMatrix vertexArray indexArray i triangles =
     (if i < length indexArray then
        buildTriangles transformMat4 modelViewMatrix vertexArray indexArray (i + 3)
          (triangles @ [triangleAt transformMat4 modelViewMatrix vertexArray indexArray i])
      else triangles)"
  by pat_completeness auto
termination
  by (relation "measure (\<lambda>(transformMat4, modelViewMatrix, vertexArray, indexArray, i, triangles).
                            length indexArray - i)") auto

declare buildTriangles.simps [simp del]

text \<open>
  \<^verbatim>\<open>Array.prototype.sort\<close> with a comparator is the language's: ECMAScript requires it to be
  stable, and for a comparator that orders the elements consistently its result is the one
  stably sorted arrangement, which the insertion sort below computes. An element moves
  behind another only when the comparator's value for the pair is greater than zero; NaN
  counts as zero.
\<close>

fun array_insert :: "('a \<Rightarrow> 'a \<Rightarrow> jsnum) \<Rightarrow> 'a \<Rightarrow> 'a list \<Rightarrow> 'a list" where
  "array_insert compareFn x [] = [x]"
| "array_insert compareFn x (y # ys) =
     (if js_positive (compareFn x y) then y # array_insert compareFn x ys else x # y # ys)"

fun array_sort :: "('a \<Rightarrow> 'a \<Rightarrow> jsnum) \<Rightarrow> 'a list \<Rightarrow> 'a list" where
  "array_sort compareFn [] = []"
| "array_sort compareFn (x # xs) = array_insert compareFn x (array_sort compareFn xs)"

text \<open>\<^verbatim>\<open>(a, b) => a.avgDepth - b.avgDepth\<close>.\<close>

definition compareDepth :: "triangle \<Rightarrow> triangle \<Rightarrow> jsnum" where
  "compareDepth a b = js_sub (avgDepth a) (avgDepth b)"

text \<open>
  The part of the WebGL context the draw loop writes: the colour uniform, the contents of
  the bound array buffer, and what has been drawn since the last clear, each draw with the
  colour and the buffer contents it was issued with.
\<close>

record drawCommand =
  color :: "jsnum list"
  positions :: "jsnum list"

record glState =
  uColor :: "jsnum list"
  arrayBuffer :: "jsnum list"
  drawn :: "drawCommand list"

definition gl_clear :: "glState \<Rightarrow> glState" where
  "gl_clear gl = gl\<lparr> drawn := [] \<rparr>"

definition gl_uniform4fv :: "jsnum list \<Rightarrow> glState \<Rightarrow> glState" where
  "gl_uniform4fv value gl = gl\<lparr> uColor := value \<rparr>"

definition gl_bufferData :: "jsnum list \<Rightarrow> glState \<Rightarrow> glState" where
  "gl_bufferData bytes gl = gl\<lparr> arrayBuffer := bytes \<rparr>"

definition gl_drawArrays :: "glState \<Rightarrow> glState" where
  "gl_drawArrays gl = gl\<lparr> drawn := drawn gl @ [\<lparr> color = uColor gl, positions = arrayBuffer gl \<rparr>] \<rparr>"

text \<open>The callback of \<^verbatim>\<open>triangles.forEach((tri, index) => ...)\<close>; \<open>n\<close> is \<^verbatim>\<open>triangles.length\<close>.\<close>

definition drawTriangle :: "nat \<Rightarrow> triangle \<Rightarrow> nat \<Rightarrow> glState \<Rightarrow> glState" where
  "drawTriangle n tri index gl =
     (let t = js_div (Fin (real index)) (js_sub (Fin (real n)) (Fin 1));
          r = t;
          g = Fin 0;
          b = js_sub (Fin 1) t
      in gl_drawArrays (gl_bufferData (tri_vertices tri) (gl_uniform4fv [r, g, b, Fin 1] gl)))"

fun forEach_draw :: "nat \<Rightarrow> nat \<Rightarrow> triangle list \<Rightarrow> glState \<Rightarrow> glState" where
  "forEach_draw n index [] gl = gl"
| "forEach_draw n index (tri # rest) gl =
     forEach_draw n (index + 1) rest (drawTriangle n tri index gl)"

definition drawAll :: "triangle list \<Rightarrow> glState \<Rightarrow> glState" where
  "drawAll triangles gl = forEach_draw (length triangles) 0 triangles gl"

text \<open>
  One pass of \<^verbatim>\<open>renderSphere\<close>, with the model-view matrix the camera gave: clear, build,
  sort, draw. The pass ends by asking for the next frame, which is the next call.
\<close>

definition renderSphere ::
  "('m \<Rightarrow> vec4 \<Rightarrow> vec4) \<Rightarrow> 'm \<Rightarrow> sphereData \<Rightarrow> glState \<Rightarrow> glState"
where
  "renderSphere transformMat4 modelViewMatrix sphere gl =
     (let triangles = buildTriangles transformMat4 modelViewMatrix
                        (vertices sphere) (indices sphere) 0 [];
          sorted = array_sort compareDepth triangles
      in drawAll sorted (gl_clear gl))"


section \<open>gl-matrix, read exactly\<close>

text \<open>
  The three library functions the program calls, as gl-matrix computes them, over the
  exact numbers above. Nothing below depends on them except where a statement is evaluated
  at a concrete input.
\<close>

fun js_sqrt :: "jsnum \<Rightarrow> jsnum" where
  "js_sqrt (Fin a) = (if 0 \<le> a then Fin (sqrt a) else NaN)"
| "js_sqrt PInf = PInf"
| "js_sqrt NInf = NaN"
| "js_sqrt NaN = NaN"

definition glm_vec3_add :: "vec3 \<Rightarrow> vec3 \<Rightarrow> vec3" where
  "glm_vec3_add a b =
     (case a of (a0, a1, a2) \<Rightarrow> (case b of (b0, b1, b2) \<Rightarrow>
        (js_add a0 b0, js_add a1 b1, js_add a2 b2)))"

definition glm_vec3_normalize :: "vec3 \<Rightarrow> vec3" where
  "glm_vec3_normalize a =
     (case a of (x, y, z) \<Rightarrow>
        (let len = js_add (js_add (js_mul x x) (js_mul y y)) (js_mul z z);
             len' = (if js_positive len then js_div (Fin 1) (js_sqrt len) else len)
         in (js_mul x len', js_mul y len', js_mul z len')))"

definition glm_vec4_transformMat4 :: "jsnum list \<Rightarrow> vec4 \<Rightarrow> vec4" where
  "glm_vec4_transformMat4 m a =
     (case a of (x, y, z, w) \<Rightarrow>
        (let row = (\<lambda>k. js_add (js_add (js_add (js_mul (js_nth m k) x)
                                                   (js_mul (js_nth m (k + 4)) y))
                                           (js_mul (js_nth m (k + 8)) z))
                                   (js_mul (js_nth m (k + 12)) w))
         in (row 0, row 1, row 2, row 3)))"

section \<open>What the specification says, as functions\<close>

text \<open>
  The subdivision as the specification words it: a triangle at depth zero is a leaf; at a
  greater depth its three edge midpoints are normalised and the four children
  \<open>(v1, mid12, mid31)\<close>, \<open>(v2, mid23, mid12)\<close>, \<open>(v3, mid31, mid23)\<close>,
  \<open>(mid12, mid23, mid31)\<close> are refined in this order, one level down.
\<close>

fun spec_refine ::
  "(vec3 \<Rightarrow> vec3 \<Rightarrow> vec3) \<Rightarrow> (vec3 \<Rightarrow> vec3) \<Rightarrow> vec3 \<Rightarrow> vec3 \<Rightarrow> vec3 \<Rightarrow> nat \<Rightarrow>
   (vec3 \<times> vec3 \<times> vec3) list"
where
  "spec_refine vec3_add vec3_normalize v1 v2 v3 0 = [(v1, v2, v3)]"
| "spec_refine vec3_add vec3_normalize v1 v2 v3 (Suc d) =
     (let mid12 = vec3_normalize (vec3_add v1 v2);
          mid23 = vec3_normalize (vec3_add v2 v3);
          mid31 = vec3_normalize (vec3_add v3 v1)
      in spec_refine vec3_add vec3_normalize v1 mid12 mid31 d
         @ spec_refine vec3_add vec3_normalize v2 mid23 mid12 d
         @ spec_refine vec3_add vec3_normalize v3 mid31 mid23 d
         @ spec_refine vec3_add vec3_normalize mid12 mid23 mid31 d)"

text \<open>The four base faces \<open>(A,B,C)\<close>, \<open>(D,C,B)\<close>, \<open>(A,D,B)\<close>, \<open>(A,C,D)\<close>, in this order.\<close>

definition spec_generate ::
  "(vec3 \<Rightarrow> vec3 \<Rightarrow> vec3) \<Rightarrow> (vec3 \<Rightarrow> vec3) \<Rightarrow> nat \<Rightarrow> (vec3 \<times> vec3 \<times> vec3) list"
where
  "spec_generate vec3_add vec3_normalize d =
     spec_refine vec3_add vec3_normalize initialA initialB initialC d
     @ spec_refine vec3_add vec3_normalize initialD initialC initialB d
     @ spec_refine vec3_add vec3_normalize initialA initialD initialB d
     @ spec_refine vec3_add vec3_normalize initialA initialC initialD d"

text \<open>The nine coordinates of a triangle, corner after corner.\<close>

fun triangle_coords :: "vec3 \<times> vec3 \<times> vec3 \<Rightarrow> jsnum list" where
  "triangle_coords (a, b, c) = spread a @ spread b @ spread c"

text \<open>\<open>k\<close> consecutive index values, the first one the number of vertices that \<open>len\<close>
  coordinates make.\<close>

definition index_run :: "nat \<Rightarrow> nat \<Rightarrow> jsnum list" where
  "index_run len k = map (\<lambda>j. Fin (real len / 3 + real j)) [0..<k]"

text \<open>
  The mesh of the specification's data model: the indices come in triples and each one is
  an unsigned integer below the number of vertices, which is a third of the number of
  coordinates.
\<close>

fun isVertexIndex :: "nat \<Rightarrow> jsnum \<Rightarrow> bool" where
  "isVertexIndex vertexCount (Fin r) = (0 \<le> r \<and> r = of_int \<lfloor>r\<rfloor> \<and> nat \<lfloor>r\<rfloor> < vertexCount)"
| "isVertexIndex vertexCount PInf = False"
| "isVertexIndex vertexCount NInf = False"
| "isVertexIndex vertexCount NaN = False"

definition wellFormedMesh :: "sphereData \<Rightarrow> bool" where
  "wellFormedMesh sphere =
     (length (indices sphere) mod 3 = 0
      \<and> list_all (isVertexIndex (length (vertices sphere) div 3)) (indices sphere))"

text \<open>
  The triangles of a mesh, read off its two arrays with no function of the program: vertex
  number \<open>n\<close> is the three coordinates stored at \<open>3 * n\<close>, \<open>3 * n + 1\<close>, \<open>3 * n + 2\<close>, and
  the \<open>k\<close>-th triangle is the vertices that the indices at \<open>3 * k\<close>, \<open>3 * k + 1\<close>,
  \<open>3 * k + 2\<close> number.
\<close>

fun vertexNumber :: "jsnum \<Rightarrow> nat" where
  "vertexNumber (Fin r) = nat \<lfloor>r\<rfloor>"
| "vertexNumber PInf = 0"
| "vertexNumber NInf = 0"
| "vertexNumber NaN = 0"

definition storedVertex :: "jsnum list \<Rightarrow> nat \<Rightarrow> jsnum list" where
  "storedVertex coords n = [coords ! (3 * n), coords ! (3 * n + 1), coords ! (3 * n + 2)]"

definition meshTriangles :: "sphereData \<Rightarrow> jsnum list list" where
  "meshTriangles sphere =
     map (\<lambda>k. storedVertex (vertices sphere) (vertexNumber (indices sphere ! (3 * k)))
             @ storedVertex (vertices sphere) (vertexNumber (indices sphere ! (3 * k + 1)))
             @ storedVertex (vertices sphere) (vertexNumber (indices sphere ! (3 * k + 2))))
         [0..<length (indices sphere) div 3]"

text \<open>\<^verbatim>\<open>a <= b\<close> on numbers, false when either is NaN.\<close>

fun js_le :: "jsnum \<Rightarrow> jsnum \<Rightarrow> bool" where
  "js_le (Fin a) (Fin b) = (a \<le> b)"
| "js_le NaN b = False"
| "js_le a NaN = False"
| "js_le NInf b = True"
| "js_le a PInf = True"
| "js_le a NInf = False"
| "js_le PInf b = False"

text \<open>\<^verbatim>\<open>Number.isFinite(x)\<close>: a number, neither NaN nor infinite.\<close>

fun js_isFinite :: "jsnum \<Rightarrow> bool" where
  "js_isFinite (Fin a) = True"
| "js_isFinite PInf = False"
| "js_isFinite NInf = False"
| "js_isFinite NaN = False"

definition finite_vec3 :: "vec3 \<Rightarrow> bool" where
  "finite_vec3 v = (case v of (x, y, z) \<Rightarrow> js_isFinite x \<and> js_isFinite y \<and> js_isFinite z)"

text \<open>
  The colour the specification gives the triangle at position \<open>k\<close> of \<open>n\<close> sorted ones:
  \<open>t = k / (n - 1)\<close> and \<open>(r, g, b, a) = (t, 0, 1 - t, 1)\<close>.
\<close>

definition spec_color :: "nat \<Rightarrow> nat \<Rightarrow> jsnum list" where
  "spec_color n k =
     [Fin (real k / (real n - 1)), Fin 0, Fin (1 - real k / (real n - 1)), Fin 1]"

section \<open>Points on the unit sphere\<close>

text \<open>
  The vertices a flat coordinate array holds, three coordinates each, and the
  specification's test on one of them: its Euclidean distance from the origin is 1 within
  \<open>1e-5\<close>.
\<close>

fun vec3s :: "jsnum list \<Rightarrow> vec3 list" where
  "vec3s (x # y # z # rest) = (x, y, z) # vec3s rest"
| "vec3s rest = []"

definition on_sphere :: "vec3 \<Rightarrow> bool" where
  "on_sphere v =
     (case v of
        (Fin x, Fin y, Fin z) \<Rightarrow> \<bar>sqrt (x * x + y * y + z * z) - 1\<bar> \<le> 1 / 100000
      | _ \<Rightarrow> False)"

text \<open>
  Vectors of three reals, to reason about the numbers inside a \<open>vec3\<close>: the vector as a
  \<open>vec3\<close>, the dot product, the sum, and the sum scaled to length one as
  \<^verbatim>\<open>vec3.normalize\<close> scales it.
\<close>

type_synonym rvec = "real \<times> real \<times> real"

definition numbers3 :: "rvec \<Rightarrow> vec3" where
  "numbers3 a = (case a of (x, y, z) \<Rightarrow> (Fin x, Fin y, Fin z))"

definition vdot :: "rvec \<Rightarrow> rvec \<Rightarrow> real" where
  "vdot a b = (case a of (a0, a1, a2) \<Rightarrow> (case b of (b0, b1, b2) \<Rightarrow> a0 * b0 + a1 * b1 + a2 * b2))"

definition vadd :: "rvec \<Rightarrow> rvec \<Rightarrow> rvec" where
  "vadd a b = (case a of (a0, a1, a2) \<Rightarrow> (case b of (b0, b1, b2) \<Rightarrow> (a0 + b0, a1 + b1, a2 + b2)))"

definition vunit :: "rvec \<Rightarrow> rvec" where
  "vunit a =
     (case a of (x, y, z) \<Rightarrow>
        (x * (1 / sqrt (vdot a a)), y * (1 / sqrt (vdot a a)), z * (1 / sqrt (vdot a a))))"

text \<open>
  What the subdivision keeps true of a triangle: each corner has a squared length within
  \<open>1e-6\<close> of 1, and no two corners are further apart than a dot product of \<open>-2/5\<close>, so the
  sum of two corners is never the zero vector.
\<close>

definition nearUnit :: "rvec \<Rightarrow> bool" where
  "nearUnit a = (999999 / 1000000 \<le> vdot a a \<and> vdot a a \<le> 1000001 / 1000000)"

definition wide :: "rvec \<Rightarrow> rvec \<Rightarrow> bool" where
  "wide a b = (- (2 / 5) \<le> vdot a b)"

definition goodTriangle :: "rvec \<Rightarrow> rvec \<Rightarrow> rvec \<Rightarrow> bool" where
  "goodTriangle a b c =
     (nearUnit a \<and> nearUnit b \<and> nearUnit c \<and> wide a b \<and> wide b c \<and> wide c a)"

section \<open>The generator computes the specified subdivision\<close>

lemma refineSphere_leaf:
  "refineSphere f g v1 v2 v3 0 (vs, ixs) =
     Some (vs @ spread v1 @ spread v2 @ spread v3,
           ixs @ [Fin (real (length vs) / 3), Fin (real (length vs) / 3 + 1),
                 Fin (real (length vs) / 3 + 2)])"
  by (subst refineSphere.simps) simp

lemma refineSphere_split:
  "depth \<noteq> 0 \<Longrightarrow>
   refineSphere f g v1 v2 v3 depth arrays =
     (refineSphere f g v1 (g (f v1 v2)) (g (f v3 v1)) (depth - 1) arrays
       \<bind> refineSphere f g v2 (g (f v2 v3)) (g (f v1 v2)) (depth - 1)
       \<bind> refineSphere f g v3 (g (f v3 v1)) (g (f v2 v3)) (depth - 1)
       \<bind> refineSphere f g (g (f v1 v2)) (g (f v2 v3)) (g (f v3 v1)) (depth - 1))"
  by (subst refineSphere.simps) (simp add: Let_def)

lemma length_spec_refine: "length (spec_refine f g v1 v2 v3 d) = 4 ^ d"
  by (induction d arbitrary: v1 v2 v3) (simp_all add: Let_def)

lemma length_spread: "length (spread v) = 3"
  by (cases v rule: prod_cases3) simp

lemma length_triangle_coords: "length (triangle_coords t) = 9"
  by (cases t rule: prod_cases3) (simp add: length_spread)

lemma length_coords_spec_refine:
  "length (concat (map triangle_coords (spec_refine f g v1 v2 v3 d))) = 9 * 4 ^ d"
  by (induction d arbitrary: v1 v2 v3) (simp_all add: Let_def length_triangle_coords length_spread)

lemma index_run_length: "length (index_run len k) = k"
  by (simp add: index_run_def)

lemma index_run_append:
  "index_run len (a + b) = index_run len a @ index_run (len + 3 * a) b"
proof -
  have split: "[0..<a + b] = [0..<a] @ map (\<lambda>j. j + a) [0..<b]"
    using upt_add_eq_append [of 0 a b] by (simp add: map_add_upt add.commute)
  have shift: "Fin (real len / 3 + real (j + a)) = Fin (real (len + 3 * a) / 3 + real j)" for j
    by (simp add: add_divide_distrib)
  have "map (\<lambda>j. Fin (real len / 3 + real j)) (map (\<lambda>j. j + a) [0..<b]) =
        map (\<lambda>j. Fin (real (len + 3 * a) / 3 + real j)) [0..<b]"
    unfolding map_map comp_def shift ..
  then show ?thesis
    unfolding index_run_def split map_append by (rule arg_cong)
qed

lemma index_run_four:
  "index_run len m @ index_run (len + 3 * m) m @ index_run (len + 6 * m) m
     @ index_run (len + 9 * m) m = index_run len (4 * m)"
proof -
  have e1: "4 * m = m + 3 * m" and e2: "3 * m = m + 2 * m" and e3: "2 * m = m + m"
    and e4: "len + 3 * m + 3 * m = len + 6 * m" and e5: "len + 6 * m + 3 * m = len + 9 * m"
    by simp_all
  have a: "index_run len (4 * m) = index_run len m @ index_run (len + 3 * m) (3 * m)"
    unfolding e1 by (rule index_run_append)
  have b: "index_run (len + 3 * m) (3 * m) =
           index_run (len + 3 * m) m @ index_run (len + 6 * m) (2 * m)"
    using index_run_append [of "len + 3 * m" m "2 * m"] unfolding e4 e2 [symmetric] .
  have c: "index_run (len + 6 * m) (2 * m) =
           index_run (len + 6 * m) m @ index_run (len + 9 * m) m"
    using index_run_append [of "len + 6 * m" m m] unfolding e5 e3 [symmetric] .
  show ?thesis by (simp only: a b c)
qed


lemma refineSphere_result:
  "refineSphere f g v1 v2 v3 (int d) (vs, ixs) =
     Some (vs @ concat (map triangle_coords (spec_refine f g v1 v2 v3 d)),
           ixs @ index_run (length vs) (3 * 4 ^ d))"
proof (induction d arbitrary: v1 v2 v3 vs ixs)
  case 0
  show ?case
    by (cases v1 rule: prod_cases3; cases v2 rule: prod_cases3; cases v3 rule: prod_cases3)
       (simp add: refineSphere_leaf index_run_def upt_rec numeral_3_eq_3)
next
  case (Suc d)
  define m12 where "m12 = g (f v1 v2)"
  define m23 where "m23 = g (f v2 v3)"
  define m31 where "m31 = g (f v3 v1)"
  define c1 where "c1 = concat (map triangle_coords (spec_refine f g v1 m12 m31 d))"
  define c2 where "c2 = concat (map triangle_coords (spec_refine f g v2 m23 m12 d))"
  define c3 where "c3 = concat (map triangle_coords (spec_refine f g v3 m31 m23 d))"
  define c4 where "c4 = concat (map triangle_coords (spec_refine f g m12 m23 m31 d))"
  define k where "k = (3::nat) * 4 ^ d"
  have len: "length c1 = 3 * k" "length c2 = 3 * k" "length c3 = 3 * k"
    by (simp_all add: c1_def c2_def c3_def k_def length_coords_spec_refine)
  have r1: "refineSphere f g v1 m12 m31 (int d) (vs, ixs) =
            Some (vs @ c1, ixs @ index_run (length vs) k)"
    unfolding c1_def k_def by (rule Suc.IH)
  have r2: "refineSphere f g v2 m23 m12 (int d) (vs @ c1, ixs @ index_run (length vs) k) =
            Some ((vs @ c1) @ c2, (ixs @ index_run (length vs) k) @ index_run (length (vs @ c1)) k)"
    unfolding c2_def k_def by (rule Suc.IH)
  have r3: "refineSphere f g v3 m31 m23 (int d)
              ((vs @ c1) @ c2, (ixs @ index_run (length vs) k) @ index_run (length (vs @ c1)) k) =
            Some (((vs @ c1) @ c2) @ c3,
                  ((ixs @ index_run (length vs) k) @ index_run (length (vs @ c1)) k)
                    @ index_run (length ((vs @ c1) @ c2)) k)"
    unfolding c3_def k_def by (rule Suc.IH)
  have r4: "refineSphere f g m12 m23 m31 (int d)
              (((vs @ c1) @ c2) @ c3,
                  ((ixs @ index_run (length vs) k) @ index_run (length (vs @ c1)) k)
                    @ index_run (length ((vs @ c1) @ c2)) k) =
            Some ((((vs @ c1) @ c2) @ c3) @ c4,
                  (((ixs @ index_run (length vs) k) @ index_run (length (vs @ c1)) k)
                    @ index_run (length ((vs @ c1) @ c2)) k)
                    @ index_run (length (((vs @ c1) @ c2) @ c3)) k)"
    unfolding c4_def k_def by (rule Suc.IH)
  have lens: "length (vs @ c1) = length vs + 3 * k" "length ((vs @ c1) @ c2) = length vs + 6 * k"
    "length (((vs @ c1) @ c2) @ c3) = length vs + 9 * k"
    by (simp_all add: len)
  have coords: "concat (map triangle_coords (spec_refine f g v1 v2 v3 (Suc d))) = c1 @ c2 @ c3 @ c4"
    by (simp add: Let_def c1_def c2_def c3_def c4_def m12_def m23_def m31_def)
  have run: "index_run (length vs) (3 * 4 ^ Suc d) =
             index_run (length vs) k @ index_run (length vs + 3 * k) k
               @ index_run (length vs + 6 * k) k @ index_run (length vs + 9 * k) k"
    using index_run_four [of "length vs" k] by (simp add: k_def)
  have "refineSphere f g v1 v2 v3 (int (Suc d)) (vs, ixs) =
        (refineSphere f g v1 m12 m31 (int d) (vs, ixs)
          \<bind> refineSphere f g v2 m23 m12 (int d)
          \<bind> refineSphere f g v3 m31 m23 (int d)
          \<bind> refineSphere f g m12 m23 m31 (int d))"
    using refineSphere_split [of "int (Suc d)" f g v1 v2 v3 "(vs, ixs)"]
    by (simp add: m12_def m23_def m31_def)
  also have "\<dots> = Some ((((vs @ c1) @ c2) @ c3) @ c4,
                  (((ixs @ index_run (length vs) k) @ index_run (length (vs @ c1)) k)
                    @ index_run (length ((vs @ c1) @ c2)) k)
                    @ index_run (length (((vs @ c1) @ c2) @ c3)) k)"
    by (simp only: r1 r2 r3 r4 bind.bind_lunit)
  also have "\<dots> = Some (vs @ concat (map triangle_coords (spec_refine f g v1 v2 v3 (Suc d))),
           ixs @ index_run (length vs) (3 * 4 ^ Suc d))"
    unfolding lens coords run by (simp only: append_assoc)
  finally show ?case .
qed

lemma length_coords_spec_generate:
  "length (concat (map triangle_coords (spec_generate f g d))) = 36 * 4 ^ d"
  by (simp add: spec_generate_def length_coords_spec_refine)

lemma index_run_zero: "index_run 0 k = map (\<lambda>j. Fin (real j)) [0..<k]"
  by (simp add: index_run_def)

lemma createSphereBuffers_result:
  "createSphereBuffers f g (Some (int d)) =
     Some \<lparr> indexCount = 12 * 4 ^ d,
            vertices = concat (map triangle_coords (spec_generate f g d)),
            indices = index_run 0 (12 * 4 ^ d) \<rparr>"
proof -
  define k where "k = (3::nat) * 4 ^ d"
  have run: "index_run 0 k @ index_run (3 * k) k @ index_run (6 * k) k @ index_run (9 * k) k
             = index_run 0 (12 * 4 ^ d)"
    using index_run_four [of 0 k] by (simp add: k_def)
  have nine: "9 * 4 ^ d = 3 * k" "18 * 4 ^ d = 6 * k" "27 * 4 ^ d = 9 * k" "3 * 4 ^ d = k"
    by (simp_all add: k_def)
  show ?thesis
    by (simp add: createSphereBuffers_def refineSphere_result spec_generate_def
          length_coords_spec_refine nine run index_run_length)
qed


text \<open>
  C1. For every depth \<open>d \<ge> 0\<close> the generator returns, and its index array has
  \<open>4 * 4^d * 3\<close> entries, which is also the \<^verbatim>\<open>indexCount\<close> it reports; the vertex array
  holds three coordinates for each of as many vertices as there are indices (nothing is
  shared). At depth 0 that is 4 triangles and 12 vertices, at depth 1 it is 16 triangles and
  48 vertices.
\<close>

theorem generate_counts:
  "(\<exists>mesh. createSphereBuffers f g (Some (int d)) = Some mesh
       \<and> length (indices mesh) = 4 * 4 ^ d * 3
       \<and> indexCount mesh = length (indices mesh)
       \<and> length (vertices mesh) = 3 * length (indices mesh))
   \<and> (\<exists>mesh. createSphereBuffers f g (Some 0) = Some mesh
       \<and> length (indices mesh) = 4 * 3 \<and> length (vertices mesh) = 3 * 12)
   \<and> (\<exists>mesh. createSphereBuffers f g (Some 1) = Some mesh
       \<and> length (indices mesh) = 16 * 3 \<and> length (vertices mesh) = 3 * 48)"
proof (intro conjI)
  show "\<exists>mesh. createSphereBuffers f g (Some (int d)) = Some mesh
       \<and> length (indices mesh) = 4 * 4 ^ d * 3
       \<and> indexCount mesh = length (indices mesh)
       \<and> length (vertices mesh) = 3 * length (indices mesh)"
    by (simp add: createSphereBuffers_result index_run_length length_coords_spec_generate)
  show "\<exists>mesh. createSphereBuffers f g (Some 0) = Some mesh
       \<and> length (indices mesh) = 4 * 3 \<and> length (vertices mesh) = 3 * 12"
    using createSphereBuffers_result [of f g 0]
    by (simp add: index_run_length length_coords_spec_generate)
  show "\<exists>mesh. createSphereBuffers f g (Some 1) = Some mesh
       \<and> length (indices mesh) = 16 * 3 \<and> length (vertices mesh) = 3 * 48"
    using createSphereBuffers_result [of f g 1]
    by (simp add: index_run_length length_coords_spec_generate)
qed

text \<open>
  C2. The vertices the generator returns are those of the four base faces \<open>(A,B,C)\<close>,
  \<open>(D,C,B)\<close>, \<open>(A,D,B)\<close>, \<open>(A,C,D)\<close>, refined in this order, and what one call of
  \<^verbatim>\<open>refineSphere\<close> appends is the leaves of the specified recursion in its order: the
  normalised midpoints of \<open>(v1,v2)\<close>, \<open>(v2,v3)\<close>, \<open>(v3,v1)\<close>, then the children
  \<open>(v1, mid12, mid31)\<close>, \<open>(v2, mid23, mid12)\<close>, \<open>(v3, mid31, mid23)\<close>,
  \<open>(mid12, mid23, mid31)\<close>, each one level down. This holds for whatever the two library
  functions compute, so the order cannot be another one.
\<close>

theorem generate_follows_specified_order:
  "(\<exists>mesh. createSphereBuffers f g (Some (int d)) = Some mesh
       \<and> vertices mesh = concat (map triangle_coords (spec_generate f g d)))
   \<and> map_option fst (refineSphere f g v1 v2 v3 (int d) (vs, ixs))
       = Some (vs @ concat (map triangle_coords (spec_refine f g v1 v2 v3 d)))"
  by (simp add: createSphereBuffers_result refineSphere_result)

text \<open>
  C7. At depth 0 \<^verbatim>\<open>refineSphere\<close> appends the coordinates of \<open>v1\<close>, \<open>v2\<close>, \<open>v3\<close> and the
  three indices \<open>n\<close>, \<open>n + 1\<close>, \<open>n + 2\<close>, where \<open>n\<close> is the number of vertices held
  before (a third of the number of coordinates). Hence the index array of a generated mesh
  is \<open>0, 1, 2, \<dots>\<close> up to its length.
\<close>

theorem leaf_indices_identity:
  "refineSphere f g v1 v2 v3 0 (vs, ixs) =
     Some (vs @ spread v1 @ spread v2 @ spread v3,
           ixs @ [Fin (real (length vs) / 3), Fin (real (length vs) / 3 + 1),
                  Fin (real (length vs) / 3 + 2)])
   \<and> (\<exists>mesh. createSphereBuffers f g (Some (int d)) = Some mesh
         \<and> indices mesh = map (\<lambda>j. Fin (real j)) [0..<length (indices mesh)])"
  by (simp add: refineSphere_leaf createSphereBuffers_result index_run_zero index_run_length)

text \<open>Below zero the recursion never reaches its base case.\<close>

lemma refineSphere_Some_nonneg:
  assumes "refineSphere f g v1 v2 v3 depth arrays = Some result"
  shows "0 \<le> depth"
proof (rule refineSphere.raw_induct [where P = "\<lambda>_ _ _ _ _ d _ _. 0 \<le> d", OF _ assms],
    goal_cases)
  case (1 rs f g v1 v2 v3 depth arrays result)
  show ?case
  proof (cases "depth = 0")
    case True
    then show ?thesis by simp
  next
    case False
    with 1(2) obtain r1 where
      "rs f g v1 (g (f v1 v2)) (g (f v3 v1)) (depth - 1) arrays = Some r1"
      by (auto simp: Let_def split: bind_splits)
    then have "0 \<le> depth - 1" by (rule 1(1))
    then show ?thesis by simp
  qed
qed

lemma refineSphere_negative:
  "depth < 0 \<Longrightarrow> refineSphere f g v1 v2 v3 depth arrays = None"
  using refineSphere_Some_nonneg [of f g v1 v2 v3 depth arrays] by (cases "refineSphere f g v1 v2 v3 depth arrays") auto

text \<open>
  C8. For every depth \<open>\<ge> 0\<close>, every triangle and every pair of arrays, \<^verbatim>\<open>refineSphere\<close>
  returns.
\<close>

theorem refineSphere_returns:
  "0 \<le> depth \<Longrightarrow> \<exists>result. refineSphere f g v1 v2 v3 depth arrays = Some result"
proof -
  assume "0 \<le> depth"
  then have d: "depth = int (nat depth)" by simp
  obtain vs ixs where a: "arrays = (vs, ixs)" by (cases arrays)
  show ?thesis
    unfolding a by (subst d) (simp only: refineSphere_result, blast)
qed

theorem refineSphere_returns_witness:
  "(0::int) \<le> 2 \<and>
   (\<exists>result. refineSphere glm_vec3_add glm_vec3_normalize initialA initialB initialC 2
      ([], []) = Some result)"
  using refineSphere_returns [of 2 glm_vec3_add glm_vec3_normalize initialA initialB initialC "([], [])"]
  by simp

text \<open>
  C9, as the code has it. \<^verbatim>\<open>refineSphere\<close> only appends: what the two arrays held before
  the call is an unchanged prefix of what they hold after it. The coordinates appended
  depend on \<open>(v1, v2, v3, depth)\<close> alone. The indices appended are \<open>3 * 4^depth\<close>
  consecutive numbers that start at the number of vertices held before the call, so they
  depend on the depth and on the length of the vertex array, not on the triangle.
\<close>

theorem refineSphere_appends:
  assumes "0 \<le> depth"
  shows "\<exists>vs' ixs'. refineSphere f g v1 v2 v3 depth (vs, ixs) = Some (vs', ixs')
           \<and> take (length vs) vs' = vs \<and> take (length ixs) ixs' = ixs
           \<and> drop (length vs) vs' = concat (map triangle_coords (spec_refine f g v1 v2 v3 (nat depth)))
           \<and> drop (length ixs) ixs' = index_run (length vs) (3 * 4 ^ nat depth)"
proof -
  from assms have d: "depth = int (nat depth)" by simp
  show ?thesis
    by (subst d) (simp only: refineSphere_result, simp)
qed

theorem refineSphere_appends_witness:
  "(0::int) \<le> 1 \<and>
   (\<exists>vs' ixs'. refineSphere glm_vec3_add glm_vec3_normalize initialA initialB initialC 1
        ([Fin 0, Fin 0, Fin 0], [Fin 7]) = Some (vs', ixs')
      \<and> take (length [Fin 0, Fin 0, Fin 0]) vs' = [Fin 0, Fin 0, Fin 0]
      \<and> take (length [Fin 7]) ixs' = [Fin 7]
      \<and> drop (length [Fin 0, Fin 0, Fin 0]) vs' =
          concat (map triangle_coords
            (spec_refine glm_vec3_add glm_vec3_normalize initialA initialB initialC (nat 1)))
      \<and> drop (length [Fin 7]) ixs' = index_run (length [Fin 0, Fin 0, Fin 0]) (3 * 4 ^ nat 1))"
proof -
  have h: "(0::int) \<le> 1" by simp
  show ?thesis
    using h refineSphere_appends [OF h, of glm_vec3_add glm_vec3_normalize initialA initialB
        initialC "[Fin 0, Fin 0, Fin 0]" "[Fin 7]"]
    by (rule conjI)
qed

text \<open>
  The same triangle at the same depth, with an empty index array both times: the indices
  appended differ with the vertex array that was passed.
\<close>

theorem index_suffix_counterexample:
  "map_option snd (refineSphere glm_vec3_add glm_vec3_normalize initialA initialB initialC 0
      ([], [])) = Some [Fin 0, Fin 1, Fin 2]
   \<and> map_option snd (refineSphere glm_vec3_add glm_vec3_normalize initialA initialB initialC 0
      ([Fin 0, Fin 0, Fin 0], [])) = Some [Fin 1, Fin 2, Fin 3]"
  by (simp add: refineSphere_leaf)

section \<open>The generated points lie on the unit sphere\<close>

lemma glm_add_numbers: "glm_vec3_add (numbers3 a) (numbers3 b) = numbers3 (vadd a b)"
  by (cases a rule: prod_cases3; cases b rule: prod_cases3)
     (simp add: glm_vec3_add_def numbers3_def vadd_def)

lemma glm_normalize_numbers:
  assumes "0 < vdot a a"
  shows "glm_vec3_normalize (numbers3 a) = numbers3 (vunit a)"
proof -
  obtain x y z where a: "a = (x, y, z)" by (cases a rule: prod_cases3)
  from assms have pos: "0 < x * x + y * y + z * z" by (simp add: a vdot_def)
  then have nz: "sqrt (x * x + y * y + z * z) \<noteq> 0" by simp
  show ?thesis
    using pos nz by (simp add: a glm_vec3_normalize_def numbers3_def vunit_def vdot_def Let_def)
qed

lemma vdot_commute: "vdot a b = vdot b a"
  by (cases a rule: prod_cases3; cases b rule: prod_cases3) (simp add: vdot_def mult.commute)

lemma vdot_add_left: "vdot (vadd a b) c = vdot a c + vdot b c"
  by (cases a rule: prod_cases3; cases b rule: prod_cases3; cases c rule: prod_cases3)
     (simp add: vdot_def vadd_def algebra_simps)

lemma vdot_add_right: "vdot c (vadd a b) = vdot c a + vdot c b"
  by (simp only: vdot_commute [of c] vdot_add_left)

lemma vdot_unit_left: "vdot (vunit p) q = vdot p q / sqrt (vdot p p)"
  by (cases p rule: prod_cases3; cases q rule: prod_cases3)
     (simp add: vunit_def vdot_def add_divide_distrib)

lemma vdot_unit_right: "vdot q (vunit p) = vdot q p / sqrt (vdot p p)"
  by (simp only: vdot_commute [of q] vdot_unit_left)

lemma vdot_unit_unit:
  assumes "0 < vdot p p"
  shows "vdot (vunit p) (vunit p) = 1"
proof -
  have "vdot (vunit p) (vunit p) = vdot p p / (sqrt (vdot p p) * sqrt (vdot p p))"
    by (simp add: vdot_unit_left vdot_unit_right)
  also have "\<dots> = 1" using assms by simp
  finally show ?thesis .
qed

lemma scale_keeps_wide:
  fixes x s :: real
  assumes "- (2 / 5) \<le> x" "1 \<le> s"
  shows "- (2 / 5) \<le> x / s"
proof (cases "0 \<le> x")
  case True
  with assms(2) have "0 \<le> x / s" by simp
  then show ?thesis by simp
next
  case False
  with assms(2) have "x \<le> x / s"
    by (simp add: field_simps mult_le_cancel_left)
  with assms(1) show ?thesis by simp
qed


lemma sqrt_ge_one: "1 \<le> x \<Longrightarrow> 1 \<le> sqrt x"
  by simp

lemma wide_unit_left: "wide p q \<Longrightarrow> 1 \<le> vdot p p \<Longrightarrow> wide (vunit p) q"
  unfolding wide_def vdot_unit_left by (rule scale_keeps_wide) (simp_all)

lemma wide_unit_right: "wide q p \<Longrightarrow> 1 \<le> vdot p p \<Longrightarrow> wide q (vunit p)"
  unfolding wide_def vdot_unit_right by (rule scale_keeps_wide) (simp_all)

lemma wide_unit_unit:
  "wide p q \<Longrightarrow> 1 \<le> vdot p p \<Longrightarrow> 1 \<le> vdot q q \<Longrightarrow> wide (vunit p) (vunit q)"
  by (intro wide_unit_left wide_unit_right)

lemma nearUnit_unit: "1 \<le> vdot p p \<Longrightarrow> nearUnit (vunit p)"
  by (simp add: nearUnit_def vdot_unit_unit)

lemma edge_sum_long:
  assumes "nearUnit a" "nearUnit b" "wide a b"
  shows "1 \<le> vdot (vadd a b) (vadd a b)"
proof -
  have "vdot (vadd a b) (vadd a b) = vdot a a + vdot b b + 2 * vdot a b"
    by (simp add: vdot_add_left vdot_add_right vdot_commute [of b a])
  with assms show ?thesis by (simp add: nearUnit_def wide_def)
qed

lemma goodTriangle_children:
  assumes "goodTriangle a b c"
  defines "m12 \<equiv> vunit (vadd a b)" and "m23 \<equiv> vunit (vadd b c)" and "m31 \<equiv> vunit (vadd c a)"
  shows "goodTriangle a m12 m31" "goodTriangle b m23 m12" "goodTriangle c m31 m23"
    "goodTriangle m12 m23 m31"
proof -
  from assms(1) have n: "nearUnit a" "nearUnit b" "nearUnit c"
    and w: "wide a b" "wide b c" "wide c a"
    by (simp_all add: goodTriangle_def)
  have w': "wide b a" "wide c b" "wide a c"
    using w by (simp_all add: wide_def vdot_commute)
  have aa: "999999 / 1000000 \<le> vdot a a" and bb: "999999 / 1000000 \<le> vdot b b"
    and cc: "999999 / 1000000 \<le> vdot c c"
    using n by (simp_all add: nearUnit_def)
  have ab: "- (2 / 5) \<le> vdot a b" and bc: "- (2 / 5) \<le> vdot b c" and ca: "- (2 / 5) \<le> vdot c a"
    using w by (simp_all add: wide_def)
  have ba: "vdot b a = vdot a b" and cb: "vdot c b = vdot b c" and ac: "vdot a c = vdot c a"
    by (rule vdot_commute)+
  have l12: "1 \<le> vdot (vadd a b) (vadd a b)" by (rule edge_sum_long [OF n(1) n(2) w(1)])
  have l23: "1 \<le> vdot (vadd b c) (vadd b c)" by (rule edge_sum_long [OF n(2) n(3) w(2)])
  have l31: "1 \<le> vdot (vadd c a) (vadd c a)" by (rule edge_sum_long [OF n(3) n(1) w(3)])
  have u: "nearUnit m12" "nearUnit m23" "nearUnit m31"
    unfolding m12_def m23_def m31_def by (rule nearUnit_unit, fact)+
  have corner_edge:
    "wide a (vadd a b)" "wide (vadd c a) a" "wide b (vadd b c)" "wide (vadd a b) b"
    "wide c (vadd c a)" "wide (vadd b c) c"
    unfolding wide_def vdot_add_left vdot_add_right ba cb ac
    using aa bb cc ab bc ca by linarith+
  have edge_edge:
    "wide (vadd a b) (vadd c a)" "wide (vadd b c) (vadd a b)" "wide (vadd c a) (vadd b c)"
    "wide (vadd a b) (vadd b c)" "wide (vadd b c) (vadd c a)" "wide (vadd c a) (vadd a b)"
    unfolding wide_def vdot_add_left vdot_add_right ba cb ac
    using aa bb cc ab bc ca by linarith+
  show "goodTriangle a m12 m31"
    unfolding goodTriangle_def m12_def m31_def
    using n(1) u(1,3) [unfolded m12_def m31_def]
      wide_unit_right [OF corner_edge(1) l12] wide_unit_unit [OF edge_edge(1) l12 l31]
      wide_unit_left [OF corner_edge(2) l31]
    by simp
  show "goodTriangle b m23 m12"
    unfolding goodTriangle_def m23_def m12_def
    using n(2) u(2,1) [unfolded m12_def m23_def]
      wide_unit_right [OF corner_edge(3) l23] wide_unit_unit [OF edge_edge(2) l23 l12]
      wide_unit_left [OF corner_edge(4) l12]
    by simp
  show "goodTriangle c m31 m23"
    unfolding goodTriangle_def m31_def m23_def
    using n(3) u(3,2) [unfolded m31_def m23_def]
      wide_unit_right [OF corner_edge(5) l31] wide_unit_unit [OF edge_edge(3) l31 l23]
      wide_unit_left [OF corner_edge(6) l23]
    by simp
  show "goodTriangle m12 m23 m31"
    unfolding goodTriangle_def m12_def m23_def m31_def
    using u [unfolded m12_def m23_def m31_def]
      wide_unit_unit [OF edge_edge(4) l12 l23] wide_unit_unit [OF edge_edge(5) l23 l31]
      wide_unit_unit [OF edge_edge(6) l31 l12]
    by simp
qed


lemma nearUnit_on_sphere:
  assumes "nearUnit a"
  shows "on_sphere (numbers3 a)"
proof -
  obtain x y z where a: "a = (x, y, z)" by (cases a rule: prod_cases3)
  define q where "q = x * x + y * y + z * z"
  from assms have lo: "999999 / 1000000 \<le> q" and hi: "q \<le> 1000001 / 1000000"
    by (simp_all add: nearUnit_def a vdot_def q_def)
  have "(99999 / 100000)\<^sup>2 \<le> q" using lo by (simp add: power2_eq_square)
  then have l: "99999 / 100000 \<le> sqrt q" by (rule real_le_rsqrt)
  have "q \<le> (100001 / 100000)\<^sup>2" using hi by (simp add: power2_eq_square)
  then have h: "sqrt q \<le> 100001 / 100000" by (intro real_le_lsqrt) simp_all
  from l h have "\<bar>sqrt q - 1\<bar> \<le> 1 / 100000" by linarith
  then show ?thesis by (simp add: on_sphere_def numbers3_def a q_def)
qed

lemma vec3s_append: "length xs mod 3 = 0 \<Longrightarrow> vec3s (xs @ ys) = vec3s xs @ vec3s ys"
  by (induction xs rule: vec3s.induct) simp_all

lemma length_vec3s: "length (vec3s xs) = length xs div 3"
  by (induction xs rule: vec3s.induct) simp_all

lemma leaves_on_sphere:
  "goodTriangle a b c \<Longrightarrow>
   list_all on_sphere (vec3s (concat (map triangle_coords
      (spec_refine glm_vec3_add glm_vec3_normalize (numbers3 a) (numbers3 b) (numbers3 c) d))))"
proof (induction d arbitrary: a b c)
  case 0
  then have "on_sphere (numbers3 a)" "on_sphere (numbers3 b)" "on_sphere (numbers3 c)"
    by (simp_all add: goodTriangle_def nearUnit_on_sphere)
  then show ?case
    by (cases a rule: prod_cases3; cases b rule: prod_cases3; cases c rule: prod_cases3)
       (simp add: numbers3_def)
next
  case (Suc d)
  from Suc.prems have n: "nearUnit a" "nearUnit b" "nearUnit c"
    and w: "wide a b" "wide b c" "wide c a"
    by (simp_all add: goodTriangle_def)
  have pos: "0 < vdot (vadd a b) (vadd a b)" "0 < vdot (vadd b c) (vadd b c)"
    "0 < vdot (vadd c a) (vadd c a)"
    using edge_sum_long [OF n(1) n(2) w(1)] edge_sum_long [OF n(2) n(3) w(2)]
      edge_sum_long [OF n(3) n(1) w(3)] by simp_all
  have mids:
    "glm_vec3_normalize (glm_vec3_add (numbers3 a) (numbers3 b)) = numbers3 (vunit (vadd a b))"
    "glm_vec3_normalize (glm_vec3_add (numbers3 b) (numbers3 c)) = numbers3 (vunit (vadd b c))"
    "glm_vec3_normalize (glm_vec3_add (numbers3 c) (numbers3 a)) = numbers3 (vunit (vadd c a))"
    by (simp_all only: glm_add_numbers glm_normalize_numbers [OF pos(1)]
          glm_normalize_numbers [OF pos(2)] glm_normalize_numbers [OF pos(3)])
  note kids = goodTriangle_children [OF Suc.prems]
  have len: "length (concat (map triangle_coords (spec_refine f g p q r d))) mod 3 = 0"
    for f g p q r
    by (simp add: length_coords_spec_refine)
  show ?case
    unfolding spec_refine.simps Let_def mids map_append concat_append
    by (simp only: vec3s_append [OF len] list_all_append Suc.IH [OF kids(1)] Suc.IH [OF kids(2)]
          Suc.IH [OF kids(3)] Suc.IH [OF kids(4)] simp_thms)
qed


lemma initial_numbers:
  "initialA = numbers3 (0, 0, - 1)"
  "initialB = numbers3 (0, 942809 / 1000000, 333333 / 1000000)"
  "initialC = numbers3 (- (816497 / 1000000), - (471405 / 1000000), 333333 / 1000000)"
  "initialD = numbers3 (816497 / 1000000, - (471405 / 1000000), 333333 / 1000000)"
  by (simp_all add: initialA_def initialB_def initialC_def initialD_def numbers3_def)

lemma base_faces_good:
  "goodTriangle (0, 0, - 1) (0, 942809 / 1000000, 333333 / 1000000)
     (- (816497 / 1000000), - (471405 / 1000000), 333333 / 1000000)"
  "goodTriangle (816497 / 1000000, - (471405 / 1000000), 333333 / 1000000)
     (- (816497 / 1000000), - (471405 / 1000000), 333333 / 1000000)
     (0, 942809 / 1000000, 333333 / 1000000)"
  "goodTriangle (0, 0, - 1) (816497 / 1000000, - (471405 / 1000000), 333333 / 1000000)
     (0, 942809 / 1000000, 333333 / 1000000)"
  "goodTriangle (0, 0, - 1) (- (816497 / 1000000), - (471405 / 1000000), 333333 / 1000000)
     (816497 / 1000000, - (471405 / 1000000), 333333 / 1000000)"
  by (simp_all add: goodTriangle_def nearUnit_def wide_def vdot_def)

lemma generate_on_sphere:
  "list_all on_sphere (vec3s (concat (map triangle_coords
      (spec_generate glm_vec3_add glm_vec3_normalize d))))"
proof -
  have len: "length (concat (map triangle_coords (spec_refine f g p q r d))) mod 3 = 0"
    for f g p q r
    by (simp add: length_coords_spec_refine)
  show ?thesis
    unfolding spec_generate_def initial_numbers map_append concat_append
    by (simp only: vec3s_append [OF len] list_all_append leaves_on_sphere [OF base_faces_good(1)]
          leaves_on_sphere [OF base_faces_good(2)] leaves_on_sphere [OF base_faces_good(3)]
          leaves_on_sphere [OF base_faces_good(4)] simp_thms)
qed

text \<open>
  C6. With the numbers exact and gl-matrix read exactly, every vertex of the mesh generated
  at any depth \<open>d \<ge> 0\<close> lies at distance 1 from the origin within \<open>1e-5\<close>: the four base
  points do, and every midpoint is scaled to length one, the sum of two corners of a
  triangle never being the zero vector.
\<close>

theorem generated_on_unit_sphere:
  "\<exists>mesh. createSphereBuffers glm_vec3_add glm_vec3_normalize (Some (int d)) = Some mesh
      \<and> length (vec3s (vertices mesh)) = 4 * 4 ^ d * 3
      \<and> list_all on_sphere (vec3s (vertices mesh))"
  by (simp add: createSphereBuffers_result generate_on_sphere length_vec3s
        length_coords_spec_generate)

section \<open>The renderer: building, sorting, drawing\<close>

lemma buildTriangles_unfold:
  "buildTriangles xf M vs ixs i acc =
     (if i < length ixs then buildTriangles xf M vs ixs (i + 3) (acc @ [triangleAt xf M vs ixs i])
      else acc)"
  by (rule buildTriangles.simps)

lemma buildTriangles_from:
  "buildTriangles xf M vs ixs (3 * j) acc =
     acc @ map (\<lambda>k. triangleAt xf M vs ixs (3 * k)) [j..<(length ixs + 2) div 3]"
proof (induction "(length ixs + 2) div 3 - j" arbitrary: j acc)
  case 0
  then have "\<not> 3 * j < length ixs" by linarith
  moreover from 0 have "[j..<(length ixs + 2) div 3] = []" by simp
  ultimately show ?case
    by (subst buildTriangles_unfold) simp
next
  case (Suc n)
  then have less: "j < (length ixs + 2) div 3" by linarith
  then have run: "3 * j < length ixs" by linarith
  have next_i: "3 * j + 3 = 3 * Suc j" by simp
  have "n = (length ixs + 2) div 3 - Suc j" using Suc.hyps(2) by linarith
  then have ih: "buildTriangles xf M vs ixs (3 * Suc j) (acc @ [triangleAt xf M vs ixs (3 * j)]) =
     (acc @ [triangleAt xf M vs ixs (3 * j)])
       @ map (\<lambda>k. triangleAt xf M vs ixs (3 * k)) [Suc j..<(length ixs + 2) div 3]"
    by (rule Suc.hyps(1))
  have upt: "[j..<(length ixs + 2) div 3] = j # [Suc j..<(length ixs + 2) div 3]"
    by (rule upt_conv_Cons [OF less])
  show ?case
    by (subst buildTriangles_unfold) (simp only: run if_True next_i ih upt list.map append_assoc append.simps)
qed

lemma length_buildTriangles:
  "length (buildTriangles xf M vs ixs 0 []) = (length ixs + 2) div 3"
  using buildTriangles_from [of xf M vs ixs 0 "[]"] by simp


lemma mset_array_insert: "mset (array_insert c x ys) = add_mset x (mset ys)"
  by (induction ys) simp_all

lemma mset_array_sort: "mset (array_sort c xs) = mset xs"
  by (induction xs) (simp_all add: mset_array_insert)

lemma set_array_insert: "set (array_insert c x ys) = insert x (set ys)"
  by (induction ys) auto

lemma set_array_sort: "set (array_sort c xs) = set xs"
  by (induction xs) (simp_all add: set_array_insert)

lemma js_le_trans: "js_le a b \<Longrightarrow> js_le b c \<Longrightarrow> js_le a c"
  by (cases a; cases b; cases c) simp_all

lemma compareDepth_positive:
  "avgDepth a \<noteq> NaN \<Longrightarrow> avgDepth b \<noteq> NaN \<Longrightarrow> js_positive (compareDepth a b) \<Longrightarrow>
   js_le (avgDepth b) (avgDepth a)"
  by (cases "avgDepth a"; cases "avgDepth b") (simp_all add: compareDepth_def js_sub_def)

lemma compareDepth_not_positive:
  "avgDepth a \<noteq> NaN \<Longrightarrow> avgDepth b \<noteq> NaN \<Longrightarrow> \<not> js_positive (compareDepth a b) \<Longrightarrow>
   js_le (avgDepth a) (avgDepth b)"
  by (cases "avgDepth a"; cases "avgDepth b") (simp_all add: compareDepth_def js_sub_def)


lemma sorted_array_insert:
  assumes "sorted_wrt (\<lambda>a b. js_le (avgDepth a) (avgDepth b)) ys"
    and "avgDepth x \<noteq> NaN" and "\<forall>y \<in> set ys. avgDepth y \<noteq> NaN"
  shows "sorted_wrt (\<lambda>a b. js_le (avgDepth a) (avgDepth b)) (array_insert compareDepth x ys)"
  using assms
proof (induction ys)
  case Nil
  show ?case by simp
next
  case (Cons y ys)
  show ?case
  proof (cases "js_positive (compareDepth x y)")
    case True
    then have "js_le (avgDepth y) (avgDepth x)"
      using Cons.prems by (simp add: compareDepth_positive)
    with True Cons show ?thesis
      by (simp add: set_array_insert)
  next
    case False
    then have xy: "js_le (avgDepth x) (avgDepth y)"
      using Cons.prems by (simp add: compareDepth_not_positive)
    have "js_le (avgDepth x) (avgDepth z)" if "z \<in> set ys" for z
      using xy Cons.prems(1) that js_le_trans by auto
    with False xy Cons.prems(1) show ?thesis by simp
  qed
qed

lemma sorted_array_sort:
  "\<forall>t \<in> set ts. avgDepth t \<noteq> NaN \<Longrightarrow>
   sorted_wrt (\<lambda>a b. js_le (avgDepth a) (avgDepth b)) (array_sort compareDepth ts)"
  by (induction ts) (simp_all add: sorted_array_insert set_array_sort)



lemma drawn_drawTriangle:
  "drawn (drawTriangle n tri index gl) =
     drawn gl @ [\<lparr> color = [js_div (Fin (real index)) (js_sub (Fin (real n)) (Fin 1)), Fin 0,
                              js_sub (Fin 1) (js_div (Fin (real index)) (js_sub (Fin (real n)) (Fin 1))),
                              Fin 1],
                     positions = tri_vertices tri \<rparr>]"
  by (simp add: drawTriangle_def gl_drawArrays_def gl_bufferData_def gl_uniform4fv_def Let_def)

lemma positions_forEach_draw:
  "map positions (drawn (forEach_draw n index ts gl)) =
     map positions (drawn gl) @ map tri_vertices ts"
  by (induction ts arbitrary: index gl) (simp_all add: drawn_drawTriangle)

lemma color_forEach_draw:
  "map color (drawn (forEach_draw n index ts gl)) =
     map color (drawn gl)
       @ map (\<lambda>k. [js_div (Fin (real k)) (js_sub (Fin (real n)) (Fin 1)), Fin 0,
                    js_sub (Fin 1) (js_div (Fin (real k)) (js_sub (Fin (real n)) (Fin 1))), Fin 1])
             [index..<index + length ts]"
proof (induction ts arbitrary: index gl)
  case Nil
  show ?case by simp
next
  case (Cons tri rest)
  have upt: "[index..<index + length (tri # rest)] = index # [index + 1..<index + 1 + length rest]"
    using upt_conv_Cons [of index "index + length (tri # rest)"] by simp
  show ?case
    unfolding upt by (simp add: Cons.IH drawn_drawTriangle)
qed

lemma positions_drawAll:
  "map positions (drawn (drawAll ts (gl_clear gl))) = map tri_vertices ts"
  by (simp add: drawAll_def positions_forEach_draw gl_clear_def)

lemma color_drawAll:
  "map color (drawn (drawAll ts (gl_clear gl))) =
     map (\<lambda>k. [js_div (Fin (real k)) (js_sub (Fin (real (length ts))) (Fin 1)), Fin 0,
                 js_sub (Fin 1) (js_div (Fin (real k)) (js_sub (Fin (real (length ts))) (Fin 1))),
                 Fin 1]) [0..<length ts]"
  by (simp add: drawAll_def color_forEach_draw gl_clear_def)

lemma renderSphere_positions:
  "map positions (drawn (renderSphere xf M sphere gl)) =
     map tri_vertices (array_sort compareDepth
        (buildTriangles xf M (vertices sphere) (indices sphere) 0 []))"
  by (simp add: renderSphere_def Let_def positions_drawAll)

text \<open>
  With gl-matrix read exactly, the depths the renderer computes for a generated mesh under
  a matrix of sixteen numbers are numbers: the indices are in range, the coordinates are
  finite, and so is every sum and product of them.
\<close>

lemma js_isFinite_iff: "js_isFinite x \<longleftrightarrow> (\<exists>r. x = Fin r)"
  by (cases x) simp_all

lemma finite_add: "js_isFinite a \<Longrightarrow> js_isFinite b \<Longrightarrow> js_isFinite (js_add a b)"
  by (auto simp: js_isFinite_iff)

lemma finite_mul: "js_isFinite a \<Longrightarrow> js_isFinite b \<Longrightarrow> js_isFinite (js_mul a b)"
  by (auto simp: js_isFinite_iff)

lemma finite_vec3_add:
  "finite_vec3 a \<Longrightarrow> finite_vec3 b \<Longrightarrow> finite_vec3 (glm_vec3_add a b)"
  by (cases a rule: prod_cases3; cases b rule: prod_cases3)
     (simp add: finite_vec3_def glm_vec3_add_def finite_add)

lemma finite_vec3_normalize: "finite_vec3 a \<Longrightarrow> finite_vec3 (glm_vec3_normalize a)"
  by (cases a rule: prod_cases3)
     (auto simp: finite_vec3_def glm_vec3_normalize_def Let_def js_isFinite_iff)

lemma finite_spread: "finite_vec3 v \<Longrightarrow> list_all js_isFinite (spread v)"
  by (cases v rule: prod_cases3) (simp add: finite_vec3_def)

lemma finite_spec_refine:
  "finite_vec3 v1 \<Longrightarrow> finite_vec3 v2 \<Longrightarrow> finite_vec3 v3 \<Longrightarrow>
   list_all js_isFinite
     (concat (map triangle_coords (spec_refine glm_vec3_add glm_vec3_normalize v1 v2 v3 d)))"
proof (induction d arbitrary: v1 v2 v3)
  case 0
  then show ?case by (simp add: finite_spread)
next
  case (Suc d)
  then show ?case
    by (simp add: Let_def finite_vec3_add finite_vec3_normalize)
qed

lemma finite_initial:
  "finite_vec3 initialA" "finite_vec3 initialB" "finite_vec3 initialC" "finite_vec3 initialD"
  by (simp_all add: finite_vec3_def initialA_def initialB_def initialC_def initialD_def)

lemma finite_spec_generate:
  "list_all js_isFinite
     (concat (map triangle_coords (spec_generate glm_vec3_add glm_vec3_normalize d)))"
  by (simp add: spec_generate_def finite_spec_refine finite_initial)

lemma js_index_nat: "j < length arr \<Longrightarrow> js_index arr (Fin (real j)) = arr ! j"
  by (simp add: js_index_def js_nth_def)

lemma fetchVertex_in_range:
  assumes "3 * i + 2 < length vs"
  shows "fetchVertex vs (js_mul (Fin (real i)) (Fin 3)) = (vs ! (3 * i), vs ! (3 * i + 1), vs ! (3 * i + 2))"
proof -
  have e: "real i * 3 = real (3 * i)" "real (3 * i) + 1 = real (3 * i + 1)"
    "real (3 * i) + 2 = real (3 * i + 2)" by simp_all
  have lt: "3 * i < length vs" "3 * i + 1 < length vs" using assms by simp_all
  show ?thesis
    unfolding fetchVertex_def js_mul.simps js_add.simps e
    by (simp only: js_index_nat [OF lt(1)] js_index_nat [OF lt(2)] js_index_nat [OF assms])
qed

lemma finite_fetchVertex:
  "list_all js_isFinite vs \<Longrightarrow> 3 * i + 2 < length vs \<Longrightarrow>
   finite_vec3 (fetchVertex vs (js_mul (Fin (real i)) (Fin 3)))"
  using fetchVertex_in_range [of i vs] by (simp add: finite_vec3_def list_all_length)

lemma finite_transformVertex:
  assumes "list_all js_isFinite M" "length M = 16" "finite_vec3 v"
  shows "finite_vec3 (transformVertex glm_vec4_transformMat4 M v)"
proof -
  have m: "js_isFinite (js_nth M k)" if "k < 16" for k
    using assms(1,2) that by (simp add: js_nth_def list_all_length)
  obtain x y z where v: "v = (x, y, z)" by (cases v rule: prod_cases3)
  with assms(3) have c: "js_isFinite x" "js_isFinite y" "js_isFinite z"
    by (simp_all add: finite_vec3_def)
  have row: "js_isFinite (js_add (js_add (js_add (js_mul (js_nth M k) x) (js_mul (js_nth M (k + 4)) y))
                 (js_mul (js_nth M (k + 8)) z)) (js_mul (js_nth M (k + 12)) (Fin 1)))"
    if "k < 4" for k
    using that by (intro finite_add finite_mul m c) simp_all
  show ?thesis
    using row [of 0] row [of 1] row [of 2]
    by (simp add: v transformVertex_def glm_vec4_transformMat4_def Let_def finite_vec3_def)
qed


lemma js_nth_index_run: "j < n \<Longrightarrow> js_nth (index_run 0 n) j = Fin (real j)"
  by (simp add: js_nth_def index_run_def)

lemma finite_third: "finite_vec3 v \<Longrightarrow> js_isFinite (snd (snd v))"
  by (cases v rule: prod_cases3) (simp add: finite_vec3_def)

lemma finite_div3: "js_isFinite a \<Longrightarrow> js_isFinite (js_div a (Fin 3))"
  by (cases a) simp_all

lemma finite_avgDepth_triangleAt:
  assumes M: "list_all js_isFinite M" "length M = 16"
    and vs: "list_all js_isFinite vs" "length vs = 3 * n"
    and k: "3 * k + 2 < n"
  shows "js_isFinite (avgDepth (triangleAt glm_vec4_transformMat4 M vs (index_run 0 n) (3 * k)))"
proof -
  have corner: "js_isFinite (snd (snd (transformVertex glm_vec4_transformMat4 M
                  (fetchVertex vs (js_mul (js_nth (index_run 0 n) j) (Fin 3))))))"
    if "j < n" for j
  proof -
    from that vs(2) have "3 * j + 2 < length vs" by simp
    with vs(1) have "finite_vec3 (fetchVertex vs (js_mul (Fin (real j)) (Fin 3)))"
      by (rule finite_fetchVertex)
    then show ?thesis
      by (simp only: js_nth_index_run [OF that] finite_third finite_transformVertex [OF M])
  qed
  have "3 * k < n" "3 * k + 1 < n" using k by simp_all
  then show ?thesis
    using k by (simp add: triangleAt_def Let_def finite_div3 finite_add corner)
qed

lemma generated_depths_finite:
  assumes "list_all js_isFinite M" "length M = 16"
  shows "list_all (\<lambda>t. js_isFinite (avgDepth t))
           (buildTriangles glm_vec4_transformMat4 M
              (concat (map triangle_coords (spec_generate glm_vec3_add glm_vec3_normalize d)))
              (index_run 0 (12 * 4 ^ d)) 0 [])"
proof -
  define vs where
    "vs = concat (map triangle_coords (spec_generate glm_vec3_add glm_vec3_normalize d))"
  define n :: nat where "n = 12 * 4 ^ d"
  have vs: "list_all js_isFinite vs" "length vs = 3 * n"
    by (simp_all add: vs_def n_def finite_spec_generate length_coords_spec_generate)
  have "(length (index_run 0 n) + 2) div 3 = 4 * 4 ^ d"
    by (simp add: index_run_length n_def)
  then have built: "buildTriangles glm_vec4_transformMat4 M vs (index_run 0 n) 0 [] =
      map (\<lambda>k. triangleAt glm_vec4_transformMat4 M vs (index_run 0 n) (3 * k)) [0..<4 * 4 ^ d]"
    using buildTriangles_from [of glm_vec4_transformMat4 M vs "index_run 0 n" 0 "[]"] by simp
  have "js_isFinite (avgDepth (triangleAt glm_vec4_transformMat4 M vs (index_run 0 n) (3 * k)))"
    if "k < 4 * 4 ^ d" for k
  proof -
    from that have "3 * k + 2 < n" by (simp add: n_def)
    then show ?thesis by (rule finite_avgDepth_triangleAt [OF assms vs])
  qed
  then show ?thesis
    unfolding vs_def [symmetric] n_def [symmetric] built by (simp add: list_all_iff)
qed

lemma renderer_depths_finite:
  assumes "list_all js_isFinite M" "length M = 16"
  shows "\<exists>mesh. createSphereBuffers glm_vec3_add glm_vec3_normalize (Some (int d)) = Some mesh
           \<and> list_all (\<lambda>t. js_isFinite (avgDepth t))
                 (buildTriangles glm_vec4_transformMat4 M (vertices mesh) (indices mesh) 0 [])"
  using generated_depths_finite [OF assms, of d] by (simp add: createSphereBuffers_result)

text \<open>So the triangles of a generated mesh are drawn in non-decreasing depth.\<close>

lemma renderer_sorts_generated_mesh:
  assumes "list_all js_isFinite M" "length M = 16"
  shows "\<exists>mesh. createSphereBuffers glm_vec3_add glm_vec3_normalize (Some (int d)) = Some mesh
           \<and> sorted_wrt (\<lambda>a b. js_le (avgDepth a) (avgDepth b))
                 (array_sort compareDepth
                    (buildTriangles glm_vec4_transformMat4 M (vertices mesh) (indices mesh) 0 []))"
proof -
  from renderer_depths_finite [OF assms, of d] obtain mesh where
    mesh: "createSphereBuffers glm_vec3_add glm_vec3_normalize (Some (int d)) = Some mesh"
    and fin: "list_all (\<lambda>t. js_isFinite (avgDepth t))
                 (buildTriangles glm_vec4_transformMat4 M (vertices mesh) (indices mesh) 0 [])"
    by blast
  from fin have "\<forall>t \<in> set (buildTriangles glm_vec4_transformMat4 M (vertices mesh)
                      (indices mesh) 0 []). avgDepth t \<noteq> NaN"
    by (auto simp: list_all_iff)
  then have "sorted_wrt (\<lambda>a b. js_le (avgDepth a) (avgDepth b))
                 (array_sort compareDepth
                    (buildTriangles glm_vec4_transformMat4 M (vertices mesh) (indices mesh) 0 []))"
    by (rule sorted_array_sort)
  with mesh show ?thesis by blast
qed

text \<open>
  On a well-formed mesh the loop reads the stored coordinates: what it pushes for the
  \<open>k\<close>-th index triple is the \<open>k\<close>-th triangle of the mesh.
\<close>

lemma isVertexIndex_number:
  assumes "isVertexIndex c x"
  shows "x = Fin (real (vertexNumber x))" "vertexNumber x < c"
  using assms by (cases x; simp)+

lemma corner_stored:
  assumes "j < length ixs" "isVertexIndex (length vs div 3) (ixs ! j)"
  shows "spread (fetchVertex vs (js_mul (js_nth ixs j) (Fin 3))) = storedVertex vs (vertexNumber (ixs ! j))"
proof -
  define n where "n = vertexNumber (ixs ! j)"
  have x: "ixs ! j = Fin (real n)" and n: "n < length vs div 3"
    using isVertexIndex_number [OF assms(2)] by (simp_all add: n_def)
  from n have range: "3 * n + 2 < length vs" by linarith
  have nth: "js_nth ixs j = Fin (real n)"
    using assms(1) x by (simp add: js_nth_def)
  show ?thesis
    unfolding nth n_def [symmetric] fetchVertex_in_range [OF range] storedVertex_def spread.simps ..
qed

lemma tri_vertices_triangleAt:
  assumes "wellFormedMesh sphere" "k < length (indices sphere) div 3"
  shows "tri_vertices (triangleAt xf M (vertices sphere) (indices sphere) (3 * k)) =
     storedVertex (vertices sphere) (vertexNumber (indices sphere ! (3 * k)))
       @ storedVertex (vertices sphere) (vertexNumber (indices sphere ! (3 * k + 1)))
       @ storedVertex (vertices sphere) (vertexNumber (indices sphere ! (3 * k + 2)))"
proof -
  have lt: "3 * k < length (indices sphere)" "3 * k + 1 < length (indices sphere)"
    "3 * k + 2 < length (indices sphere)"
    using assms(2) by linarith+
  have ok: "isVertexIndex (length (vertices sphere) div 3) (indices sphere ! j)"
    if "j < length (indices sphere)" for j
    using assms(1) that by (simp add: wellFormedMesh_def list_all_length)
  note c = corner_stored [OF lt(1) ok [OF lt(1)]] corner_stored [OF lt(2) ok [OF lt(2)]]
    corner_stored [OF lt(3) ok [OF lt(3)]]
  show ?thesis
    unfolding triangleAt_def Let_def triangle.select_convs c ..
qed

lemma buildTriangles_meshTriangles:
  assumes "wellFormedMesh sphere"
  shows "map tri_vertices (buildTriangles xf M (vertices sphere) (indices sphere) 0 []) =
     meshTriangles sphere"
proof -
  from assms have "length (indices sphere) mod 3 = 0" by (simp add: wellFormedMesh_def)
  then have count: "(length (indices sphere) + 2) div 3 = length (indices sphere) div 3"
    by presburger
  have "buildTriangles xf M (vertices sphere) (indices sphere) (3 * 0) [] =
        [] @ map (\<lambda>k. triangleAt xf M (vertices sphere) (indices sphere) (3 * k))
               [0..<(length (indices sphere) + 2) div 3]"
    by (rule buildTriangles_from)
  then have "buildTriangles xf M (vertices sphere) (indices sphere) 0 [] =
        map (\<lambda>k. triangleAt xf M (vertices sphere) (indices sphere) (3 * k))
            [0..<length (indices sphere) div 3]"
    unfolding count by (simp only: mult_0_right append_Nil)
  then have "map tri_vertices (buildTriangles xf M (vertices sphere) (indices sphere) 0 []) =
        map (\<lambda>k. tri_vertices (triangleAt xf M (vertices sphere) (indices sphere) (3 * k)))
            [0..<length (indices sphere) div 3]"
    by (simp only: map_map comp_def)
  also have "\<dots> = meshTriangles sphere"
    unfolding meshTriangles_def
    by (rule map_cong [OF refl]) (simp add: tri_vertices_triangleAt [OF assms])
  finally show ?thesis .
qed

lemma generated_mesh_wellFormed:
  "\<exists>mesh. createSphereBuffers f g (Some (int d)) = Some mesh \<and> wellFormedMesh mesh"
proof -
  have "isVertexIndex (12 * 4 ^ d) (Fin (real j))" if "j < 12 * 4 ^ d" for j
    using that by simp
  then have "list_all (isVertexIndex (12 * 4 ^ d)) (index_run 0 (12 * 4 ^ d))"
    by (simp add: index_run_def list_all_iff)
  then show ?thesis
    by (simp add: createSphereBuffers_result wellFormedMesh_def index_run_length
          length_coords_spec_generate)
qed

text \<open>The renderer's triangle list for a generated mesh has \<open>4 * 4^depth\<close> elements.\<close>

lemma generated_triangle_count:
  "\<exists>mesh. createSphereBuffers f g (Some (int d)) = Some mesh
      \<and> length (buildTriangles xf M (vertices mesh) (indices mesh) 0 []) = 4 * 4 ^ d"
proof -
  have "(12 * 4 ^ d + 2) div 3 = (4::nat) * 4 ^ d" by simp
  then show ?thesis
    by (simp add: createSphereBuffers_result length_buildTriangles index_run_length)
qed

section \<open>The renderer: the claims\<close>



lemma color_drawAll_spec:
  assumes "1 < length ts"
  shows "map color (drawn (drawAll ts (gl_clear gl))) = map (spec_color (length ts)) [0..<length ts]"
proof -
  have "real (length ts) - 1 \<noteq> 0" using assms by simp
  then show ?thesis
    by (simp add: color_drawAll spec_color_def js_sub_def)
qed

text \<open>
  C5. For more than one triangle the draw at position \<open>k\<close> of \<open>n\<close> is issued with the
  colour \<open>(t, 0, 1 - t, 1)\<close>, \<open>t = k / (n - 1)\<close>, and with the vertices of the \<open>k\<close>-th
  triangle: the first draw is \<open>(0, 0, 1, 1)\<close>, the last one \<open>(1, 0, 0, 1)\<close>.
\<close>

theorem gradient_colors:
  assumes "1 < length ts"
  shows "map color (drawn (drawAll ts (gl_clear gl))) = map (spec_color (length ts)) [0..<length ts]
       \<and> map positions (drawn (drawAll ts (gl_clear gl))) = map tri_vertices ts
       \<and> map color (drawn (drawAll ts (gl_clear gl))) ! 0 = [Fin 0, Fin 0, Fin 1, Fin 1]
       \<and> map color (drawn (drawAll ts (gl_clear gl))) ! (length ts - 1) = [Fin 1, Fin 0, Fin 0, Fin 1]"
proof -
  define m where "m = length ts - 1"
  have n: "real (length ts) - 1 \<noteq> 0" "0 < length ts" "m < length ts"
    "real m = real (length ts) - 1"
    using assms by (auto simp: m_def)
  have first: "spec_color (length ts) 0 = [Fin 0, Fin 0, Fin 1, Fin 1]"
    by (simp add: spec_color_def)
  have final: "spec_color (length ts) m = [Fin 1, Fin 0, Fin 0, Fin 1]"
    unfolding spec_color_def n(4) using n(1) by simp
  have colors: "map color (drawn (drawAll ts (gl_clear gl))) =
                map (spec_color (length ts)) [0..<length ts]"
    by (rule color_drawAll_spec [OF assms])
  have at0: "map (spec_color (length ts)) [0..<length ts] ! 0 = [Fin 0, Fin 0, Fin 1, Fin 1]"
    using n(2) by (simp add: first)
  have at_last: "map (spec_color (length ts)) [0..<length ts] ! m = [Fin 1, Fin 0, Fin 0, Fin 1]"
    using n(3) by (simp add: final)
  show ?thesis
    unfolding colors m_def [symmetric] using at0 at_last by (simp add: positions_drawAll)
qed

theorem gradient_colors_witness:
  "1 < length [\<lparr> tri_vertices = [Fin 1], avgDepth = Fin 0 \<rparr>,
               \<lparr> tri_vertices = [Fin 2], avgDepth = Fin 1 \<rparr>,
               \<lparr> tri_vertices = [Fin 3], avgDepth = Fin 2 \<rparr>]
   \<and> map color (drawn (drawAll [\<lparr> tri_vertices = [Fin 1], avgDepth = Fin 0 \<rparr>,
               \<lparr> tri_vertices = [Fin 2], avgDepth = Fin 1 \<rparr>,
               \<lparr> tri_vertices = [Fin 3], avgDepth = Fin 2 \<rparr>]
        (gl_clear \<lparr> uColor = [], arrayBuffer = [], drawn = [] \<rparr>)))
     = [[Fin 0, Fin 0, Fin 1, Fin 1], [Fin (1 / 2), Fin 0, Fin (1 / 2), Fin 1],
        [Fin 1, Fin 0, Fin 0, Fin 1]]"
proof -
  have h: "1 < length [\<lparr> tri_vertices = [Fin 1], avgDepth = Fin 0 \<rparr>,
               \<lparr> tri_vertices = [Fin 2], avgDepth = Fin 1 \<rparr>,
               \<lparr> tri_vertices = [Fin 3], avgDepth = Fin 2 \<rparr>]"
    by simp
  have v: "map (spec_color (length [\<lparr> tri_vertices = [Fin 1], avgDepth = Fin 0 \<rparr>,
               \<lparr> tri_vertices = [Fin 2], avgDepth = Fin 1 \<rparr>,
               \<lparr> tri_vertices = [Fin 3], avgDepth = Fin 2 \<rparr>]))
             [0..<length [\<lparr> tri_vertices = [Fin 1], avgDepth = Fin 0 \<rparr>,
               \<lparr> tri_vertices = [Fin 2], avgDepth = Fin 1 \<rparr>,
               \<lparr> tri_vertices = [Fin 3], avgDepth = Fin 2 \<rparr>]]
           = [[Fin 0, Fin 0, Fin 1, Fin 1],
              [Fin (1 / 2), Fin 0, Fin (1 / 2), Fin 1], [Fin 1, Fin 0, Fin 0, Fin 1]]"
    by (simp add: spec_color_def upt_rec)
  from gradient_colors [OF h, of "\<lparr> uColor = [], arrayBuffer = [], drawn = [] \<rparr>"]
  have "map color (drawn (drawAll [\<lparr> tri_vertices = [Fin 1], avgDepth = Fin 0 \<rparr>,
               \<lparr> tri_vertices = [Fin 2], avgDepth = Fin 1 \<rparr>,
               \<lparr> tri_vertices = [Fin 3], avgDepth = Fin 2 \<rparr>]
        (gl_clear \<lparr> uColor = [], arrayBuffer = [], drawn = [] \<rparr>)))
     = [[Fin 0, Fin 0, Fin 1, Fin 1], [Fin (1 / 2), Fin 0, Fin (1 / 2), Fin 1],
        [Fin 1, Fin 0, Fin 0, Fin 1]]"
    unfolding v ..
  with h show ?thesis ..
qed

text \<open>
  C10. For every well-formed mesh, every matrix and every transform, the vertex data of
  the draws of one pass are, as a multiset, the triangles of the mesh: each triangle is
  drawn once, with the coordinates stored in the mesh's vertex array at the places its
  indices number, and there are as many draws as index triples. The view transform does
  not reach the vertex data.
\<close>

theorem render_is_permutation:
  assumes "wellFormedMesh sphere"
  shows "mset (map positions (drawn (renderSphere xf M sphere gl))) = mset (meshTriangles sphere)
       \<and> length (drawn (renderSphere xf M sphere gl)) = length (indices sphere) div 3"
proof -
  define triangles where
    "triangles = buildTriangles xf M (vertices sphere) (indices sphere) 0 []"
  have r: "map positions (drawn (renderSphere xf M sphere gl)) =
           map tri_vertices (array_sort compareDepth triangles)"
    by (simp add: renderSphere_positions triangles_def)
  have "mset (map tri_vertices (array_sort compareDepth triangles)) =
        mset (map tri_vertices triangles)"
    by (simp add: mset_array_sort)
  also have "\<dots> = mset (meshTriangles sphere)"
    by (simp add: triangles_def buildTriangles_meshTriangles [OF assms])
  finally have m: "mset (map positions (drawn (renderSphere xf M sphere gl))) =
                   mset (meshTriangles sphere)"
    by (simp only: r)
  from m have "size (mset (map positions (drawn (renderSphere xf M sphere gl)))) =
               size (mset (meshTriangles sphere))" by simp
  then have "length (drawn (renderSphere xf M sphere gl)) = length (indices sphere) div 3"
    by (simp add: meshTriangles_def)
  with m show ?thesis ..
qed

theorem render_is_permutation_witness:
  "mset (map positions (drawn (renderSphere glm_vec4_transformMat4
      [Fin 1, Fin 0, Fin 0, Fin 0, Fin 0, Fin 1, Fin 0, Fin 0, Fin 0, Fin 0, Fin 1, Fin 0,
       Fin 0, Fin 0, Fin (- 5), Fin 1]
      \<lparr> indexCount = 6,
        vertices = [Fin 0, Fin 0, Fin 0, Fin 1, Fin 0, Fin 0, Fin 0, Fin 1, Fin 0,
                    Fin 0, Fin 0, Fin 1],
        indices = [Fin 0, Fin 1, Fin 2, Fin 2, Fin 1, Fin 3] \<rparr>
      \<lparr> uColor = [], arrayBuffer = [], drawn = [] \<rparr>)))
   = mset [[Fin 0, Fin 0, Fin 0, Fin 1, Fin 0, Fin 0, Fin 0, Fin 1, Fin 0],
           [Fin 0, Fin 1, Fin 0, Fin 1, Fin 0, Fin 0, Fin 0, Fin 0, Fin 1]]"
proof -
  have h: "wellFormedMesh
      \<lparr> indexCount = 6,
        vertices = [Fin 0, Fin 0, Fin 0, Fin 1, Fin 0, Fin 0, Fin 0, Fin 1, Fin 0,
                    Fin 0, Fin 0, Fin 1],
        indices = [Fin 0, Fin 1, Fin 2, Fin 2, Fin 1, Fin 3] \<rparr>"
    by (simp add: wellFormedMesh_def)
  have t: "meshTriangles
      \<lparr> indexCount = 6,
        vertices = [Fin 0, Fin 0, Fin 0, Fin 1, Fin 0, Fin 0, Fin 0, Fin 1, Fin 0,
                    Fin 0, Fin 0, Fin 1],
        indices = [Fin 0, Fin 1, Fin 2, Fin 2, Fin 1, Fin 3] \<rparr>
    = [[Fin 0, Fin 0, Fin 0, Fin 1, Fin 0, Fin 0, Fin 0, Fin 1, Fin 0],
           [Fin 0, Fin 1, Fin 0, Fin 1, Fin 0, Fin 0, Fin 0, Fin 0, Fin 1]]"
    by (simp add: meshTriangles_def storedVertex_def upt_rec)
  from render_is_permutation [OF h] show ?thesis
    unfolding t by (rule conjunct1)
qed

end
